theory Spec2Isabelle
  imports Complex_Main
begin

section \<open>Calendar time\<close>

text \<open>
  Python's naive \<open>datetime\<close> is modelled as the number of microseconds on the proleptic
  Gregorian time line, scaled so that \<open>date_of\<close> gives \<open>date.toordinal()\<close>; a \<open>date\<close> is
  that ordinal. The year range 1..9999 of the Python types (OverflowError beyond it) and
  time zones are not modelled: every datetime is naive, as \<open>datetime.now()\<close> and
  \<open>datetime.combine\<close> produce them. Scores are Python floats in the source; here they are
  exact reals, so rounding is not modelled.
\<close>

type_synonym date = int
type_synonym datetime = int

datatype py_error = ZeroDivisionError | ValueError | KeyError | HttpError

definition us_per_minute :: int where
  "us_per_minute = 60000000"

definition us_per_hour :: int where
  "us_per_hour = 3600000000"

definition us_per_day :: int where
  "us_per_day = 86400000000"

definition date_of :: "datetime \<Rightarrow> date" where
  \<comment> \<open>\<open>dt.date()\<close>\<close>
  "date_of t = t div us_per_day"

definition plus_days :: "datetime \<Rightarrow> int \<Rightarrow> datetime" where
  \<comment> \<open>\<open>dt + timedelta(days=i)\<close>\<close>
  "plus_days t i = t + i * us_per_day"

definition plus_minutes :: "datetime \<Rightarrow> int \<Rightarrow> datetime" where
  \<comment> \<open>\<open>dt + timedelta(minutes=m)\<close>\<close>
  "plus_minutes t m = t + m * us_per_minute"

definition weekday :: "date \<Rightarrow> int" where
  \<comment> \<open>\<open>d.weekday()\<close>: Monday is 0, Sunday is 6\<close>
  "weekday d = (d + 6) mod 7"

definition combine_hour :: "date \<Rightarrow> int \<Rightarrow> py_error + datetime" where
  \<comment> \<open>\<open>datetime.combine(d, datetime.min.time().replace(hour=h))\<close>; \<open>replace\<close> raises
      ValueError unless \<open>h\<close> is in 0..23\<close>
  "combine_hour d h =
     (if 0 \<le> h \<and> h \<le> 23 then Inr (d * us_per_day + h * us_per_hour) else Inl ValueError)"

definition replace_hour :: "datetime \<Rightarrow> int \<Rightarrow> py_error + datetime" where
  \<comment> \<open>\<open>dt.replace(hour=h, minute=0, second=0, microsecond=0)\<close>\<close>
  "replace_hour t h = combine_hour (date_of t) h"

definition at_midnight :: "date \<Rightarrow> datetime" where
  \<comment> \<open>the datetime at 00:00 of an ordinal day, for writing concrete inputs\<close>
  "at_midnight d = d * us_per_day"


section \<open>models/hormonal_cycle.py\<close>

datatype CyclePhase = MENSTRUAL | FOLLICULAR | OVULATORY | LUTEAL

fun CyclePhase_value :: "CyclePhase \<Rightarrow> string" where
  "CyclePhase_value MENSTRUAL = ''menstrual''"
| "CyclePhase_value FOLLICULAR = ''follicular''"
| "CyclePhase_value OVULATORY = ''ovulatory''"
| "CyclePhase_value LUTEAL = ''luteal''"

datatype TaskType =
  CREATIVE | ANALYTICAL | PHYSICAL | SOCIAL | ADMINISTRATIVE
  | STRATEGIC | DETAIL_ORIENTED | COMMUNICATION | LEARNING | REFLECTION

fun TaskType_value :: "TaskType \<Rightarrow> string" where
  "TaskType_value CREATIVE = ''creative''"
| "TaskType_value ANALYTICAL = ''analytical''"
| "TaskType_value PHYSICAL = ''physical''"
| "TaskType_value SOCIAL = ''social''"
| "TaskType_value ADMINISTRATIVE = ''administrative''"
| "TaskType_value STRATEGIC = ''strategic''"
| "TaskType_value DETAIL_ORIENTED = ''detail_oriented''"
| "TaskType_value COMMUNICATION = ''communication''"
| "TaskType_value LEARNING = ''learning''"
| "TaskType_value REFLECTION = ''reflection''"

text \<open>
  Field names that two classes of the source share (\<open>task_type\<close>, \<open>energy_level\<close>,
  \<open>focus_level\<close>, \<open>description\<close>) carry the prefix \<open>opt_\<close> in \<open>TaskOptimization\<close>;
  \<open>Task.id\<close> is \<open>task_id\<close>.
\<close>

record TaskOptimization =
  opt_task_type :: TaskType
  optimal_phases :: "CyclePhase list"
  opt_energy_level :: int
  opt_focus_level :: int
  opt_description :: string

record HormonalProfile =
  phase :: CyclePhase
  day_range :: "int \<times> int"
  energy_level :: int
  focus_level :: int
  creativity_level :: int
  social_energy :: int
  analytical_thinking :: int
  physical_energy :: int
  characteristics :: "string list"

record CycleData =
  user_id :: string
  last_period_start :: datetime
  cycle_length :: int
  period_length :: int
  cd_created_at :: datetime
  cd_updated_at :: datetime

definition CycleData_valid :: "CycleData \<Rightarrow> bool" where
  \<comment> \<open>the pydantic constraints \<open>Field(ge=21, le=35)\<close> and \<open>Field(ge=3, le=8)\<close>\<close>
  "CycleData_valid cd \<longleftrightarrow>
     21 \<le> cycle_length cd \<and> cycle_length cd \<le> 35 \<and> 3 \<le> period_length cd \<and> period_length cd \<le> 8"

record Task =
  task_id :: "string option"
  title :: string
  description :: "string option"
  task_type :: TaskType
  estimated_duration :: int
  priority :: int
  deadline :: "datetime option"
  created_at :: datetime
  scheduled_at :: "datetime option"
  completed :: bool

definition Task_valid :: "Task \<Rightarrow> bool" where
  \<comment> \<open>the pydantic constraint \<open>priority: int = Field(ge=1, le=5)\<close>\<close>
  "Task_valid t \<longleftrightarrow> 1 \<le> priority t \<and> priority t \<le> 5"

text \<open>
  The methods read the two tables through \<open>self\<close>; the manager is a record of them, and
  \<open>manager\<close> below is the class as the source writes it. \<open>PHASE_PROFILES\<close> is a dict, iterated
  in insertion order: an association list.
\<close>

record HormonalCycleManager =
  PHASE_PROFILES :: "(CyclePhase \<times> HormonalProfile) list"
  TASK_OPTIMIZATIONS :: "TaskOptimization list"

definition menstrual_profile :: HormonalProfile where
  "menstrual_profile = \<lparr>phase = MENSTRUAL, day_range = (1, 5), energy_level = 3,
     focus_level = 6, creativity_level = 4, social_energy = 2, analytical_thinking = 7,
     physical_energy = 2,
     characteristics = [''Introspective and reflective'', ''Good for planning and organizing'',
       ''Lower energy but high focus'', ''Excellent for detail-oriented work'',
       ''Good time for analysis and evaluation'']\<rparr>"

definition follicular_profile :: HormonalProfile where
  "follicular_profile = \<lparr>phase = FOLLICULAR, day_range = (6, 13), energy_level = 7,
     focus_level = 8, creativity_level = 9, social_energy = 6, analytical_thinking = 8,
     physical_energy = 7,
     characteristics = [''Rising energy and optimism'', ''Peak creativity and innovation'',
       ''Great for new projects'', ''High learning capacity'', ''Good for problem-solving'']\<rparr>"

definition ovulatory_profile :: HormonalProfile where
  "ovulatory_profile = \<lparr>phase = OVULATORY, day_range = (14, 16), energy_level = 9,
     focus_level = 7, creativity_level = 8, social_energy = 10, analytical_thinking = 6,
     physical_energy = 9,
     characteristics = [''Peak energy and confidence'', ''Excellent for communication'',
       ''Great for presentations and meetings'', ''High social energy'',
       ''Perfect for networking and collaboration'']\<rparr>"

definition luteal_profile :: HormonalProfile where
  "luteal_profile = \<lparr>phase = LUTEAL, day_range = (17, 28), energy_level = 5,
     focus_level = 9, creativity_level = 5, social_energy = 4, analytical_thinking = 9,
     physical_energy = 4,
     characteristics = [''High attention to detail'', ''Excellent for administrative tasks'',
       ''Good for editing and reviewing'', ''Strong analytical thinking'',
       ''Perfect for completing projects'']\<rparr>"

definition task_opt :: "TaskType \<Rightarrow> CyclePhase list \<Rightarrow> int \<Rightarrow> int \<Rightarrow> string \<Rightarrow> TaskOptimization" where
  "task_opt ty phs e f d =
     \<lparr>opt_task_type = ty, optimal_phases = phs, opt_energy_level = e, opt_focus_level = f,
      opt_description = d\<rparr>"

definition manager :: HormonalCycleManager where
  "manager = \<lparr>
     PHASE_PROFILES =
       [(MENSTRUAL, menstrual_profile), (FOLLICULAR, follicular_profile),
        (OVULATORY, ovulatory_profile), (LUTEAL, luteal_profile)],
     TASK_OPTIMIZATIONS =
       [task_opt CREATIVE [FOLLICULAR, OVULATORY] 8 7
          ''Creative work, brainstorming, design, writing'',
        task_opt ANALYTICAL [MENSTRUAL, LUTEAL] 6 9
          ''Data analysis, research, problem-solving'',
        task_opt PHYSICAL [FOLLICULAR, OVULATORY] 8 6
          ''Exercise, physical activities, active tasks'',
        task_opt SOCIAL [OVULATORY] 9 7
          ''Meetings, presentations, networking, collaboration'',
        task_opt ADMINISTRATIVE [LUTEAL, MENSTRUAL] 5 9
          ''Admin tasks, organizing, filing, data entry'',
        task_opt STRATEGIC [MENSTRUAL, FOLLICULAR] 6 8
          ''Planning, strategy, goal setting'',
        task_opt DETAIL_ORIENTED [LUTEAL, MENSTRUAL] 5 10
          ''Editing, proofreading, quality control'',
        task_opt COMMUNICATION [OVULATORY, FOLLICULAR] 8 7
          ''Calls, emails, presentations, negotiations'',
        task_opt LEARNING [FOLLICULAR] 7 8
          ''Learning new skills, training, studying'',
        task_opt REFLECTION [MENSTRUAL] 3 8
          ''Reflection, journaling, evaluation, planning'']\<rparr>"

definition in_day_range :: "int \<Rightarrow> HormonalProfile \<Rightarrow> bool" where
  \<comment> \<open>\<open>profile.day_range[0] <= cycle_day <= profile.day_range[1]\<close>\<close>
  "in_day_range cycle_day profile \<longleftrightarrow>
     fst (day_range profile) \<le> cycle_day \<and> cycle_day \<le> snd (day_range profile)"

fun match_phase :: "(CyclePhase \<times> HormonalProfile) list \<Rightarrow> int \<Rightarrow> CyclePhase option" where
  \<comment> \<open>the loop \<open>for phase, profile in self.PHASE_PROFILES.items()\<close>: the first phase whose
      range holds the day; \<open>None\<close> when the loop runs to its end\<close>
  "match_phase [] cycle_day = None"
| "match_phase ((ph, profile) # rest) cycle_day =
     (if in_day_range cycle_day profile then Some ph else match_phase rest cycle_day)"

definition phase_of_cycle_day :: "HormonalCycleManager \<Rightarrow> int \<Rightarrow> CyclePhase" where
  \<comment> \<open>the loop, then the fallback \<open>return CyclePhase.LUTEAL\<close>\<close>
  "phase_of_cycle_day self cycle_day =
     (case match_phase (PHASE_PROFILES self) cycle_day of
        Some ph \<Rightarrow> ph
      | None \<Rightarrow> LUTEAL)"

definition current_cycle_day :: "datetime \<Rightarrow> CycleData \<Rightarrow> py_error + int" where
  \<comment> \<open>the local \<open>cycle_day\<close> of \<open>get_current_phase\<close>; \<open>now\<close> is the value that
      \<open>datetime.now()\<close> reads from the wall clock\<close>
  "current_cycle_day now cycle_data =
     (let today = date_of now;
          last_period = date_of (last_period_start cycle_data);
          days_since_period = today - last_period
      in if cycle_length cycle_data = 0 then Inl ZeroDivisionError
         else Inr (days_since_period mod cycle_length cycle_data + 1))"

definition get_current_phase ::
  "HormonalCycleManager \<Rightarrow> datetime \<Rightarrow> CycleData \<Rightarrow> py_error + CyclePhase" where
  "get_current_phase self now cycle_data =
     (case current_cycle_day now cycle_data of
        Inl e \<Rightarrow> Inl e
      | Inr cycle_day \<Rightarrow> Inr (phase_of_cycle_day self cycle_day))"

definition cycle_day_for_date :: "CycleData \<Rightarrow> datetime \<Rightarrow> py_error + int" where
  \<comment> \<open>the local \<open>cycle_day\<close> of \<open>get_phase_for_date\<close>, with its adjustment of a negative
      difference; both \<open>//\<close> and \<open>%\<close> raise ZeroDivisionError on a zero cycle length\<close>
  "cycle_day_for_date cycle_data target_date =
     (let last_period = date_of (last_period_start cycle_data);
          target = date_of target_date;
          days_since_period = target - last_period
      in if cycle_length cycle_data = 0 then Inl ZeroDivisionError
         else if days_since_period < 0 then
           (let cycles_back = \<bar>days_since_period\<bar> div cycle_length cycle_data + 1;
                adjusted_start = last_period - cycles_back * cycle_length cycle_data;
                days_since_period' = target - adjusted_start
            in Inr (days_since_period' mod cycle_length cycle_data + 1))
         else Inr (days_since_period mod cycle_length cycle_data + 1))"

definition get_phase_for_date ::
  "HormonalCycleManager \<Rightarrow> CycleData \<Rightarrow> datetime \<Rightarrow> py_error + CyclePhase" where
  "get_phase_for_date self cycle_data target_date =
     (case cycle_day_for_date cycle_data target_date of
        Inl e \<Rightarrow> Inl e
      | Inr cycle_day \<Rightarrow> Inr (phase_of_cycle_day self cycle_day))"

fun find_task_opt :: "TaskOptimization list \<Rightarrow> TaskType \<Rightarrow> TaskOptimization option" where
  \<comment> \<open>the loop over \<open>self.TASK_OPTIMIZATIONS\<close> that stops at the first entry of the task's type\<close>
  "find_task_opt [] ty = None"
| "find_task_opt (opt # rest) ty =
     (if opt_task_type opt = ty then Some opt else find_task_opt rest ty)"

definition score_formula :: "bool \<Rightarrow> HormonalProfile \<Rightarrow> int \<Rightarrow> real" where
  \<comment> \<open>the arithmetic of \<open>get_optimal_scheduling_score\<close> once the phase, its profile and the
      affinity entry are known; the first argument is \<open>phase in task_opt.optimal_phases\<close>\<close>
  "score_formula is_optimal phase_profile prio =
     (let base_score = (if is_optimal then 0.8 else 0.3);
          energy_match = real_of_int (energy_level phase_profile) / 10;
          focus_match = real_of_int (focus_level phase_profile) / 10;
          phase_weight = 0.5;
          energy_weight = 0.3;
          focus_weight = 0.2;
          final_score = base_score * phase_weight + energy_match * energy_weight
                        + focus_match * focus_weight;
          priority_boost = real_of_int (prio - 1) * 0.1
      in min 1.0 (final_score + priority_boost))"

definition get_optimal_scheduling_score ::
  "HormonalCycleManager \<Rightarrow> Task \<Rightarrow> datetime \<Rightarrow> CycleData \<Rightarrow> py_error + real" where
  "get_optimal_scheduling_score self task target_date cycle_data =
     (case get_phase_for_date self cycle_data target_date of
        Inl e \<Rightarrow> Inl e
      | Inr ph \<Rightarrow>
          (case map_of (PHASE_PROFILES self) ph of
             None \<Rightarrow> Inl KeyError
           | Some phase_profile \<Rightarrow>
               (case find_task_opt (TASK_OPTIMIZATIONS self) (task_type task) of
                  None \<Rightarrow> Inr 0.5
                | Some opt \<Rightarrow>
                    Inr (score_formula (ph \<in> set (optimal_phases opt)) phase_profile
                           (priority task)))))"

fun score_dates ::
  "HormonalCycleManager \<Rightarrow> Task \<Rightarrow> CycleData \<Rightarrow> datetime \<Rightarrow> int list
     \<Rightarrow> py_error + (datetime \<times> real) list" where
  \<comment> \<open>the loop \<open>for i in range(days_ahead)\<close>, which appends one pair per day and stops at
      the first exception\<close>
  "score_dates self task cycle_data today [] = Inr []"
| "score_dates self task cycle_data today (i # rest) =
     (let target_date = plus_days today i
      in case get_optimal_scheduling_score self task target_date cycle_data of
           Inl e \<Rightarrow> Inl e
         | Inr score \<Rightarrow>
             (case score_dates self task cycle_data today rest of
                Inl e \<Rightarrow> Inl e
              | Inr optimal_dates \<Rightarrow> Inr ((target_date, score) # optimal_dates)))"

definition sort_by_score_reverse :: "(datetime \<times> real) list \<Rightarrow> (datetime \<times> real) list" where
  \<comment> \<open>\<open>optimal_dates.sort(key=lambda x: x[1], reverse=True)\<close>: Python's sort is stable, also
      under \<open>reverse=True\<close>; a stable ascending sort on the negated score is the same order\<close>
  "sort_by_score_reverse xs = sort_key (\<lambda>x. - snd x) xs"

definition get_next_optimal_dates ::
  "HormonalCycleManager \<Rightarrow> datetime \<Rightarrow> Task \<Rightarrow> CycleData \<Rightarrow> int
     \<Rightarrow> py_error + (datetime \<times> real) list" where
  \<comment> \<open>\<open>now\<close> is what \<open>datetime.now()\<close> reads: the method has no parameter for it\<close>
  "get_next_optimal_dates self now task cycle_data days_ahead =
     (let today = now
      in case score_dates self task cycle_data today [0..days_ahead - 1] of
           Inl e \<Rightarrow> Inl e
         | Inr optimal_dates \<Rightarrow> Inr (take 10 (sort_by_score_reverse optimal_dates)))"


section \<open>simple_backend.py\<close>

record simple_CycleData =
  s_user_id :: string
  s_last_period_start :: datetime
  s_cycle_length :: int
  s_period_length :: int

record simple_profile =
  s_day_range :: "int \<times> int"
  s_energy_level :: int
  s_focus_level :: int
  s_characteristics :: "string list"

definition simple_PHASE_PROFILES :: "(string \<times> simple_profile) list" where
  "simple_PHASE_PROFILES =
     [(''menstrual'', \<lparr>s_day_range = (1, 5), s_energy_level = 3, s_focus_level = 6,
         s_characteristics = [''Introspective and reflective'',
           ''Good for planning and organizing'', ''Lower energy but high focus'']\<rparr>),
      (''follicular'', \<lparr>s_day_range = (6, 13), s_energy_level = 7, s_focus_level = 8,
         s_characteristics = [''Rising energy and optimism'',
           ''Peak creativity and innovation'', ''Great for new projects'']\<rparr>),
      (''ovulatory'', \<lparr>s_day_range = (14, 16), s_energy_level = 9, s_focus_level = 7,
         s_characteristics = [''Peak energy and confidence'',
           ''Excellent for communication'', ''Great for presentations and meetings'']\<rparr>),
      (''luteal'', \<lparr>s_day_range = (17, 28), s_energy_level = 5, s_focus_level = 9,
         s_characteristics = [''High attention to detail'',
           ''Excellent for administrative tasks'', ''Good for editing and reviewing'']\<rparr>)]"

fun simple_match_phase :: "(string \<times> simple_profile) list \<Rightarrow> int \<Rightarrow> string" where
  \<comment> \<open>the loop of the module-level \<open>get_current_phase\<close> and its fallback\<close>
  "simple_match_phase [] cycle_day = ''luteal''"
| "simple_match_phase ((ph, profile) # rest) cycle_day =
     (if fst (s_day_range profile) \<le> cycle_day \<and> cycle_day \<le> snd (s_day_range profile)
      then ph else simple_match_phase rest cycle_day)"

definition simple_get_current_phase :: "datetime \<Rightarrow> simple_CycleData \<Rightarrow> py_error + string" where
  "simple_get_current_phase now cycle_data =
     (let today = date_of now;
          last_period = date_of (s_last_period_start cycle_data);
          days_since_period = today - last_period
      in if s_cycle_length cycle_data = 0 then Inl ZeroDivisionError
         else Inr (simple_match_phase simple_PHASE_PROFILES
                     (days_since_period mod s_cycle_length cycle_data + 1)))"

definition to_simple :: "CycleData \<Rightarrow> simple_CycleData" where
  \<comment> \<open>the same cycle data as the module-level \<open>CycleData\<close> of simple_backend.py\<close>
  "to_simple cd = \<lparr>s_user_id = user_id cd, s_last_period_start = last_period_start cd,
     s_cycle_length = cycle_length cd, s_period_length = period_length cd\<rparr>"


section \<open>services/calendar_service.py\<close>

text \<open>
  The Google Calendar client is a library outside the repository. Its two calls that the
  scheduling path makes are parameters: \<open>events_list\<close> is
  \<open>service.events().list(calendarId='primary', timeMin=.., timeMax=.., ...).execute()\<close>
  and \<open>events_insert\<close> is \<open>service.events().insert(calendarId='primary', body=..).execute()\<close>,
  over a remote calendar of any type \<open>'r\<close>. Either call may raise (\<open>Inl\<close>). An item of the
  listing is a timed event (its start has a \<open>dateTime\<close>, an ISO string with a \<open>T\<close>) or an
  all-day event (a \<open>date\<close> only), which \<open>get_calendar_availability\<close> skips. A timed item
  carries its start and end as datetimes already: the parsing of the ISO strings by
  \<open>datetime.fromisoformat\<close>, with their UTC offsets, is not modelled, and the busy times are
  naive datetimes like the slot times they are compared with.
\<close>

record calendar_event =
  ev_summary :: string
  ev_description :: string
  ev_start :: datetime
  ev_end :: datetime
  ev_colorId :: string
  ev_taskType :: string
  ev_priority :: int
  ev_reminders :: "(string \<times> int) list option"

datatype gcal_item = TimedItem datetime datetime "string option" | AllDayItem

record 'r google_api =
  events_list :: "'r \<Rightarrow> datetime \<Rightarrow> datetime \<Rightarrow> py_error + gcal_item list"
  events_insert :: "'r \<Rightarrow> calendar_event \<Rightarrow> (py_error + string option) \<times> 'r"

record 'r CalendarService =
  cycle_manager :: HormonalCycleManager
  service :: "'r option"

record busy_time =
  busy_start :: datetime
  busy_end :: datetime
  busy_summary :: string

record slot =
  slot_start :: datetime
  slot_end :: datetime
  slot_duration :: int

record schedule_result =
  scheduled_time :: datetime
  end_time :: datetime
  cycle_score :: real
  hormonal_phase :: string
  calendar_event_id :: "string option"
  reasoning :: string

fun get_color_for_task_type :: "TaskType \<Rightarrow> string" where
  "get_color_for_task_type CREATIVE = ''5''"
| "get_color_for_task_type ANALYTICAL = ''9''"
| "get_color_for_task_type PHYSICAL = ''11''"
| "get_color_for_task_type SOCIAL = ''10''"
| "get_color_for_task_type ADMINISTRATIVE = ''8''"
| "get_color_for_task_type STRATEGIC = ''3''"
| "get_color_for_task_type DETAIL_ORIENTED = ''6''"
| "get_color_for_task_type COMMUNICATION = ''2''"
| "get_color_for_task_type LEARNING = ''4''"
| "get_color_for_task_type REFLECTION = ''1''"

definition build_event :: "Task \<Rightarrow> datetime \<Rightarrow> int option \<Rightarrow> calendar_event" where
  \<comment> \<open>the dict \<open>event\<close> of \<open>create_calendar_event\<close>; \<open>x or y\<close> takes \<open>y\<close> when \<open>x\<close> is
      \<open>None\<close>, zero or the empty string\<close>
  "build_event task start_time duration_minutes =
     (let duration = (case duration_minutes of
                        None \<Rightarrow> estimated_duration task
                      | Some d \<Rightarrow> if d = 0 then estimated_duration task else d);
          finish_time = plus_minutes start_time duration
      in \<lparr>ev_summary = title task,
          ev_description = (case description task of
                              None \<Rightarrow> ''Optimally scheduled task during your hormonal cycle''
                            | Some s \<Rightarrow> if s = [] then
                                ''Optimally scheduled task during your hormonal cycle'' else s),
          ev_start = start_time,
          ev_end = finish_time,
          ev_colorId = get_color_for_task_type (task_type task),
          ev_taskType = TaskType_value (task_type task),
          ev_priority = priority task,
          ev_reminders =
            (if priority task \<ge> 4 then Some [(''email'', 24 * 60), (''popup'', 30)]
             else if priority task \<ge> 2 then Some [(''popup'', 15)]
             else None)\<rparr>)"

definition create_calendar_event ::
  "'r google_api \<Rightarrow> 'r CalendarService \<Rightarrow> Task \<Rightarrow> datetime \<Rightarrow> int option
     \<Rightarrow> string option \<times> 'r CalendarService" where
  \<comment> \<open>returns the event id, or \<open>None\<close> without a service or after an exception, and the
      service with the remote calendar as the insert call left it\<close>
  "create_calendar_event api self task start_time duration_minutes =
     (case service self of
        None \<Rightarrow> (None, self)
      | Some r \<Rightarrow>
          (case events_insert api r (build_event task start_time duration_minutes) of
             (Inl e, r') \<Rightarrow> (None, self\<lparr>service := Some r'\<rparr>)
           | (Inr event_id, r') \<Rightarrow> (event_id, self\<lparr>service := Some r'\<rparr>)))"

fun busy_of_items :: "gcal_item list \<Rightarrow> busy_time list" where
  \<comment> \<open>the loop over \<open>events\<close>: timed items become busy times, with the summary
      \<open>'Busy'\<close> when the event has none\<close>
  "busy_of_items [] = []"
| "busy_of_items (TimedItem s e summary # rest) =
     \<lparr>busy_start = s, busy_end = e,
      busy_summary = (case summary of None \<Rightarrow> ''Busy'' | Some x \<Rightarrow> x)\<rparr> # busy_of_items rest"
| "busy_of_items (AllDayItem # rest) = busy_of_items rest"

definition get_calendar_availability ::
  "'r google_api \<Rightarrow> 'r CalendarService \<Rightarrow> datetime \<Rightarrow> datetime \<Rightarrow> busy_time list" where
  "get_calendar_availability api self start_date end_date =
     (case service self of
        None \<Rightarrow> []
      | Some r \<Rightarrow>
          (case events_list api r start_date end_date of
             Inl e \<Rightarrow> []
           | Inr events \<Rightarrow> busy_of_items events))"

fun conflicts :: "busy_time list \<Rightarrow> datetime \<Rightarrow> datetime \<Rightarrow> bool" where
  \<comment> \<open>the loop \<open>for busy in busy_times\<close> with its \<open>break\<close>: true when \<open>is_available\<close> ends false\<close>
  "conflicts [] s e = False"
| "conflicts (busy # rest) s e =
     (if s < busy_end busy \<and> e > busy_start busy then True else conflicts rest s e)"

fun slots_for_hours ::
  "busy_time list \<Rightarrow> date \<Rightarrow> int \<Rightarrow> int list \<Rightarrow> py_error + slot list" where
  \<comment> \<open>the loop \<open>for hour in range(working_hours[0], working_hours[1])\<close> on one day: the slots
      it appends, or the ValueError of an hour outside 0..23\<close>
  "slots_for_hours busy_times current_date duration_minutes [] = Inr []"
| "slots_for_hours busy_times current_date duration_minutes (hour # rest) =
     (case combine_hour current_date hour of
        Inl e \<Rightarrow> Inl e
      | Inr start_at \<Rightarrow>
          (let end_at = plus_minutes start_at duration_minutes;
               is_available = \<not> conflicts busy_times start_at end_at
           in case slots_for_hours busy_times current_date duration_minutes rest of
                Inl e \<Rightarrow> Inl e
              | Inr later_hours \<Rightarrow>
                  Inr (if is_available
                       then \<lparr>slot_start = start_at, slot_end = end_at,
                             slot_duration = duration_minutes\<rparr> # later_hours
                       else later_hours)))"

function slots_for_days ::
  "busy_time list \<Rightarrow> int \<Rightarrow> int \<times> int \<Rightarrow> date \<Rightarrow> date \<Rightarrow> py_error + slot list" where
  \<comment> \<open>the loop \<open>while current_date <= end_date_only\<close>, weekends skipped\<close>
  "slots_for_days busy_times duration_minutes working_hours current_date end_date_only =
     (if current_date \<le> end_date_only then
        (if weekday current_date \<ge> 5 then
           slots_for_days busy_times duration_minutes working_hours (current_date + 1)
             end_date_only
         else
           (case slots_for_hours busy_times current_date duration_minutes
                   [fst working_hours..snd working_hours - 1] of
              Inl e \<Rightarrow> Inl e
            | Inr today_slots \<Rightarrow>
                (case slots_for_days busy_times duration_minutes working_hours
                        (current_date + 1) end_date_only of
                   Inl e \<Rightarrow> Inl e
                 | Inr later \<Rightarrow> Inr (today_slots @ later))))
      else Inr [])"
  by pat_completeness auto
termination
  by (relation "measure (\<lambda>(b, d, w, cur, last). nat (last + 1 - cur))") auto

definition find_available_slots ::
  "'r google_api \<Rightarrow> 'r CalendarService \<Rightarrow> datetime \<Rightarrow> datetime \<Rightarrow> int \<Rightarrow> int \<times> int
     \<Rightarrow> py_error + slot list" where
  "find_available_slots api self start_date end_date duration_minutes working_hours =
     (let busy_times = get_calendar_availability api self start_date end_date
      in slots_for_days busy_times duration_minutes working_hours
           (date_of start_date) (date_of end_date))"

fun try_optimal_dates ::
  "'r google_api \<Rightarrow> 'r CalendarService \<Rightarrow> Task \<Rightarrow> CycleData \<Rightarrow> int \<times> int
     \<Rightarrow> (datetime \<times> real) list \<Rightarrow> (py_error + schedule_result option) \<times> 'r CalendarService" where
  \<comment> \<open>the loop \<open>for optimal_date, cycle_score in optimal_dates\<close> and the final
      \<open>return None\<close>; the second component is the service after the call\<close>
  "try_optimal_dates api self task cycle_data working_hours [] = (Inr None, self)"
| "try_optimal_dates api self task cycle_data working_hours ((optimal_date, score) # rest) =
     (case replace_hour optimal_date (fst working_hours) of
        Inl e \<Rightarrow> (Inl e, self)
      | Inr start_of_day \<Rightarrow>
     (case replace_hour optimal_date (snd working_hours) of
        Inl e \<Rightarrow> (Inl e, self)
      | Inr end_of_day \<Rightarrow>
     (case find_available_slots api self start_of_day end_of_day (estimated_duration task)
             working_hours of
        Inl e \<Rightarrow> (Inl e, self)
      | Inr [] \<Rightarrow> try_optimal_dates api self task cycle_data working_hours rest
      | Inr (best_slot # others) \<Rightarrow>
          (case create_calendar_event api self task (slot_start best_slot)
                  (Some (estimated_duration task)) of
             (event_id, self') \<Rightarrow>
               (case get_phase_for_date (cycle_manager self) cycle_data optimal_date of
                  Inl e \<Rightarrow> (Inl e, self')
                | Inr ph \<Rightarrow>
                    (Inr (Some \<lparr>scheduled_time = slot_start best_slot,
                                end_time = slot_end best_slot,
                                cycle_score = score,
                                hormonal_phase = CyclePhase_value ph,
                                calendar_event_id = event_id,
                                reasoning = ''Scheduled during '' @ CyclePhase_value ph
                                  @ '' phase for optimal '' @ TaskType_value (task_type task)
                                  @ '' performance''\<rparr>),
                     self'))))))"

definition schedule_task_optimally ::
  "'r google_api \<Rightarrow> datetime \<Rightarrow> 'r CalendarService \<Rightarrow> Task \<Rightarrow> CycleData \<Rightarrow> int \<Rightarrow> int \<times> int
     \<Rightarrow> (py_error + schedule_result option) \<times> 'r CalendarService" where
  \<comment> \<open>\<open>now\<close> is the wall clock that \<open>get_next_optimal_dates\<close> reads\<close>
  "schedule_task_optimally api now self task cycle_data days_ahead working_hours =
     (case get_next_optimal_dates (cycle_manager self) now task cycle_data days_ahead of
        Inl e \<Rightarrow> (Inl e, self)
      | Inr optimal_dates \<Rightarrow>
          try_optimal_dates api self task cycle_data working_hours optimal_dates)"


section \<open>Predicates of the stated properties\<close>

definition ranked_before :: "datetime \<times> real \<Rightarrow> datetime \<times> real \<Rightarrow> bool" where
  \<comment> \<open>the order of a ranking: the score does not increase, and of two entries with the same
      score the earlier date comes first\<close>
  "ranked_before a b \<longleftrightarrow> snd b \<le> snd a \<and> (snd a = snd b \<longrightarrow> fst a < fst b)"

definition candidate :: "date \<Rightarrow> int \<Rightarrow> int \<Rightarrow> slot" where
  \<comment> \<open>the slot that \<open>find_available_slots\<close> tries on a day at a whole hour\<close>
  "candidate d h duration_minutes =
     \<lparr>slot_start = d * us_per_day + h * us_per_hour,
      slot_end = plus_minutes (d * us_per_day + h * us_per_hour) duration_minutes,
      slot_duration = duration_minutes\<rparr>"

definition overlaps_busy :: "busy_time list \<Rightarrow> slot \<Rightarrow> bool" where
  \<comment> \<open>the overlap test of the source, against any of the busy times\<close>
  "overlaps_busy busy_times sl \<longleftrightarrow>
     list_ex (\<lambda>b. slot_start sl < busy_end b \<and> slot_end sl > busy_start b) busy_times"

definition day_slots :: "busy_time list \<Rightarrow> int \<Rightarrow> int \<times> int \<Rightarrow> date \<Rightarrow> slot list" where
  \<comment> \<open>the candidates of one day, hour by hour, that overlap no busy time\<close>
  "day_slots busy_times duration_minutes working_hours d =
     map (\<lambda>h. candidate d h duration_minutes)
       (filter (\<lambda>h. \<not> overlaps_busy busy_times (candidate d h duration_minutes))
          [fst working_hours..snd working_hours - 1])"

definition hours_valid :: "int \<times> int \<Rightarrow> bool" where
  \<comment> \<open>every hour of \<open>range(working_hours[0], working_hours[1])\<close> is an hour of the day\<close>
  "hours_valid working_hours \<longleftrightarrow>
     list_all (\<lambda>h. 0 \<le> h \<and> h \<le> 23) [fst working_hours..snd working_hours - 1]"




definition dated :: "py_error + (datetime \<times> real) list \<Rightarrow> py_error + (date \<times> real) list" where
  \<comment> \<open>a ranking with each datetime cut to its date\<close>
  "dated r = map_sum id (map (\<lambda>p. (date_of (fst p), snd p))) r"


section \<open>Concrete inputs\<close>

definition cycle_from :: "date \<Rightarrow> int \<Rightarrow> CycleData" where
  \<comment> \<open>cycle data whose last period started at 00:00 of the given day\<close>
  "cycle_from d len = \<lparr>user_id = ''u1'', last_period_start = at_midnight d,
     cycle_length = len, period_length = 5, cd_created_at = 0, cd_updated_at = 0\<rparr>"

definition jan1_2024 :: date where
  \<comment> \<open>\<open>date(2024, 1, 1).toordinal()\<close>, a Monday\<close>
  "jan1_2024 = 738886"

definition example_task :: "TaskType \<Rightarrow> int \<Rightarrow> int \<Rightarrow> Task" where
  \<comment> \<open>a task of the given type, priority and duration in minutes\<close>
  "example_task ty prio minutes = \<lparr>task_id = None, title = ''task'', description = None,
     task_type = ty, estimated_duration = minutes, priority = prio, deadline = None,
     created_at = 0, scheduled_at = None, completed = False\<rparr>"

definition memory_api :: "calendar_event list google_api" where
  \<comment> \<open>a calendar client over a list of stored events: the listing gives the events that
      meet the window, an insert appends the event and returns an id\<close>
  "memory_api = \<lparr>
     events_list = (\<lambda>r time_min time_max.
       Inr (map (\<lambda>e. TimedItem (ev_start e) (ev_end e) (Some (ev_summary e)))
              (filter (\<lambda>e. time_min < ev_end e \<and> ev_start e < time_max) r))),
     events_insert = (\<lambda>r ev. (Inr (Some ''event-1''), r @ [ev]))\<rparr>"

definition calendar_with :: "calendar_event list \<Rightarrow> calendar_event list CalendarService" where
  \<comment> \<open>a service connected to a calendar that holds the given events\<close>
  "calendar_with evs = \<lparr>cycle_manager = manager, service = Some evs\<rparr>"

definition no_calendar :: "calendar_event list CalendarService" where
  \<comment> \<open>a service whose initialisation found no credentials: \<open>self.service\<close> is \<open>None\<close>\<close>
  "no_calendar = \<lparr>cycle_manager = manager, service = None\<rparr>"



section \<open>Phase resolution\<close>

lemmas time_defs = date_of_def plus_days_def plus_minutes_def weekday_def combine_hour_def
  replace_hour_def at_midnight_def us_per_day_def us_per_hour_def us_per_minute_def

lemmas table_defs = manager_def menstrual_profile_def follicular_profile_def
  ovulatory_profile_def luteal_profile_def task_opt_def

lemmas input_defs = cycle_from_def jan1_2024_def example_task_def

lemma date_of_plus_days: "date_of (plus_days t i) = date_of t + i"
  by (simp add: date_of_def plus_days_def us_per_day_def)

lemma date_of_at_midnight: "date_of (at_midnight d) = d"
  by (simp add: date_of_def at_midnight_def us_per_day_def)

lemma shifted_anchor_mod:
  fixes x a k L :: int
  shows "(x - (a - k * L)) mod L = (x - a) mod L"
proof -
  have "x - (a - k * L) = (x - a) + k * L"
    by simp
  then show ?thesis
    by (simp only: mod_mult_self1 mod_mult_self2)
qed

lemma cycle_day_for_date_mod:
  "cycle_length cd \<noteq> 0 \<Longrightarrow>
   cycle_day_for_date cd t =
     Inr ((date_of t - date_of (last_period_start cd)) mod cycle_length cd + 1)"
  by (simp add: cycle_day_for_date_def Let_def shifted_anchor_mod)

lemma cycle_day_for_date_zero:
  "cycle_length cd = 0 \<Longrightarrow> cycle_day_for_date cd t = Inl ZeroDivisionError"
  by (simp add: cycle_day_for_date_def Let_def)

lemma cycle_day_for_date_current: "cycle_day_for_date cd t = current_cycle_day t cd"
proof (cases "cycle_length cd = 0")
  case True
  then show ?thesis
    by (simp add: cycle_day_for_date_zero current_cycle_day_def Let_def)
next
  case False
  then show ?thesis
    by (simp add: cycle_day_for_date_mod current_cycle_day_def Let_def)
qed

lemma cycle_day_for_date_range:
  assumes "0 < cycle_length cd"
  shows "\<exists>c. cycle_day_for_date cd t = Inr c \<and> 1 \<le> c \<and> c \<le> cycle_length cd"
proof -
  let ?c = "(date_of t - date_of (last_period_start cd)) mod cycle_length cd"
  have "0 \<le> ?c" "?c < cycle_length cd"
    using assms by simp_all
  with assms show ?thesis
    by (simp add: cycle_day_for_date_mod)
qed

lemma cycle_day_for_date_period:
  "cycle_day_for_date cd (plus_days t (cycle_length cd)) = cycle_day_for_date cd t"
proof (cases "cycle_length cd = 0")
  case True
  then show ?thesis
    by (simp add: cycle_day_for_date_zero)
next
  case False
  have "date_of t + cycle_length cd - date_of (last_period_start cd)
        = (date_of t - date_of (last_period_start cd)) + cycle_length cd"
    by simp
  then have "(date_of t + cycle_length cd - date_of (last_period_start cd)) mod cycle_length cd
        = (date_of t - date_of (last_period_start cd)) mod cycle_length cd"
    by (simp only: mod_add_self2)
  with False show ?thesis
    by (simp add: cycle_day_for_date_mod date_of_plus_days)
qed

lemma get_phase_for_date_current: "get_phase_for_date self cd t = get_current_phase self t cd"
  by (simp add: get_phase_for_date_def get_current_phase_def cycle_day_for_date_current)

lemma simple_match_phase_manager:
  "simple_match_phase simple_PHASE_PROFILES c = CyclePhase_value (phase_of_cycle_day manager c)"
  by (simp add: simple_PHASE_PROFILES_def phase_of_cycle_day_def in_day_range_def table_defs)

lemma simple_get_current_phase_manager:
  "simple_get_current_phase t (to_simple cd) =
     map_sum id CyclePhase_value (get_current_phase manager t cd)"
  by (simp add: simple_get_current_phase_def get_current_phase_def current_cycle_day_def
      to_simple_def Let_def simple_match_phase_manager)

text \<open>
  Claim C10. The cycle day that \<open>get_phase_for_date\<close> computes, with its adjustment of the
  anchor for a target before the last period, is the floor-modulus cycle day of
  \<open>get_current_phase\<close>; so on the same reference day \<open>get_phase_for_date\<close>, the method
  \<open>get_current_phase\<close> and the function \<open>get_current_phase\<close> of simple_backend.py give the
  same phase (the last one as the phase's string value), and the same ZeroDivisionError on
  a zero cycle length.
\<close>

theorem phase_implementations_agree:
  "cycle_day_for_date cd t = current_cycle_day t cd
   \<and> get_phase_for_date self cd t = get_current_phase self t cd
   \<and> simple_get_current_phase t (to_simple cd)
       = map_sum id CyclePhase_value (get_phase_for_date manager cd t)"
  by (simp add: cycle_day_for_date_current get_phase_for_date_current
      simple_get_current_phase_manager)

text \<open>
  Claim C9. Shifting the target date forward by exactly \<open>cycle_length\<close> days changes neither
  the cycle day nor the phase, for a target before or after the anchor; and for valid cycle
  data both are defined: the cycle day lies in 1..\<open>cycle_length\<close>.
\<close>

theorem get_phase_for_date_periodic:
  "cycle_day_for_date cd (plus_days t (cycle_length cd)) = cycle_day_for_date cd t
   \<and> get_phase_for_date self cd (plus_days t (cycle_length cd)) = get_phase_for_date self cd t
   \<and> (CycleData_valid cd \<longrightarrow>
        (\<exists>c. cycle_day_for_date cd t = Inr c \<and> 1 \<le> c \<and> c \<le> cycle_length cd
           \<and> get_phase_for_date self cd t = Inr (phase_of_cycle_day self c)))"
proof -
  have valid: "\<exists>c. cycle_day_for_date cd t = Inr c \<and> 1 \<le> c \<and> c \<le> cycle_length cd
           \<and> get_phase_for_date self cd t = Inr (phase_of_cycle_day self c)"
    if "CycleData_valid cd"
  proof -
    from that have "0 < cycle_length cd"
      by (simp add: CycleData_valid_def)
    then obtain c where "cycle_day_for_date cd t = Inr c" "1 \<le> c" "c \<le> cycle_length cd"
      using cycle_day_for_date_range by blast
    then show ?thesis
      by (simp add: get_phase_for_date_def)
  qed
  show ?thesis
    using valid by (simp add: cycle_day_for_date_period get_phase_for_date_def)
qed

theorem get_phase_for_date_periodic_witness:
  "CycleData_valid (cycle_from jan1_2024 28)
   \<and> cycle_day_for_date (cycle_from jan1_2024 28) (at_midnight (jan1_2024 - 1)) = Inr 28
   \<and> cycle_day_for_date (cycle_from jan1_2024 28) (plus_days (at_midnight (jan1_2024 - 1)) 28)
       = Inr 28
   \<and> get_phase_for_date manager (cycle_from jan1_2024 28)
        (plus_days (at_midnight (jan1_2024 - 1)) 28) = Inr LUTEAL"
proof -
  have v: "CycleData_valid (cycle_from jan1_2024 28)"
    by (simp add: CycleData_valid_def cycle_from_def)
  have c: "cycle_day_for_date (cycle_from jan1_2024 28) (at_midnight (jan1_2024 - 1)) = Inr 28"
    by (simp add: cycle_day_for_date_def Let_def time_defs input_defs)
  have p: "phase_of_cycle_day manager 28 = LUTEAL"
    by (simp add: phase_of_cycle_day_def in_day_range_def table_defs)
  have len: "cycle_length (cycle_from jan1_2024 28) = 28"
    by (simp add: cycle_from_def)
  show ?thesis
    using get_phase_for_date_periodic
      [of "cycle_from jan1_2024 28" "at_midnight (jan1_2024 - 1)" manager] v c p len
    by simp
qed


section \<open>The phase table\<close>

lemma phase_table_partition_to_28:
  "1 \<le> c \<Longrightarrow> c \<le> 28 \<Longrightarrow>
   length (filter (\<lambda>(ph, profile). in_day_range c profile) (PHASE_PROFILES manager)) = 1"
  by (simp add: in_day_range_def table_defs)

lemma phase_table_gap_above_28:
  "28 < c \<Longrightarrow> filter (\<lambda>(ph, profile). in_day_range c profile) (PHASE_PROFILES manager) = []
     \<and> match_phase (PHASE_PROFILES manager) c = None"
  by (simp add: in_day_range_def table_defs)

text \<open>
  Claim C1 says that for every valid cycle length each cycle day 1..\<open>cycle_length\<close> lies in
  the \<open>day_range\<close> of exactly one profile, so that the luteal fallback is never taken. The
  table ends at day 28 while \<open>CycleData\<close> admits lengths up to 35. With a cycle of 35 days
  anchored on 2024-01-01, the date 2024-01-29 is cycle day 29: no profile holds it, the
  loop finds nothing, and the answer \<open>LUTEAL\<close> comes from the fallback that the source
  comments with "shouldn't happen".
\<close>

theorem phase_table_gap_at_day_29:
  "CycleData_valid (cycle_from jan1_2024 35)
   \<and> cycle_day_for_date (cycle_from jan1_2024 35) (at_midnight (jan1_2024 + 28)) = Inr 29
   \<and> filter (\<lambda>(ph, profile). in_day_range 29 profile) (PHASE_PROFILES manager) = []
   \<and> match_phase (PHASE_PROFILES manager) 29 = None
   \<and> get_phase_for_date manager (cycle_from jan1_2024 35) (at_midnight (jan1_2024 + 28))
       = Inr LUTEAL"
  by (simp add: CycleData_valid_def get_phase_for_date_def cycle_day_for_date_def
      phase_of_cycle_day_def in_day_range_def Let_def table_defs time_defs input_defs)


section \<open>The score\<close>

lemma manager_profile_total: "\<exists>profile. map_of (PHASE_PROFILES manager) ph = Some profile"
  by (cases ph) (simp_all add: manager_def)

lemma manager_task_opt_total:
  "\<exists>opt. find_task_opt (TASK_OPTIMIZATIONS manager) ty = Some opt \<and> opt_task_type opt = ty"
  by (cases ty) (simp_all add: manager_def task_opt_def)

lemma get_phase_for_date_defined:
  "cycle_length cd \<noteq> 0 \<Longrightarrow> \<exists>ph. get_phase_for_date self cd t = Inr ph"
  by (simp add: get_phase_for_date_def cycle_day_for_date_mod)

lemma manager_score_defined:
  assumes "cycle_length cd \<noteq> 0"
  shows "\<exists>s. get_optimal_scheduling_score manager task t cd = Inr s"
proof -
  obtain ph where ph: "get_phase_for_date manager cd t = Inr ph"
    using assms get_phase_for_date_defined by blast
  obtain profile where "map_of (PHASE_PROFILES manager) ph = Some profile"
    using manager_profile_total by blast
  with ph have "get_optimal_scheduling_score manager task t cd =
      Inr (case find_task_opt (TASK_OPTIMIZATIONS manager) (task_type task) of
             None \<Rightarrow> 0.5
           | Some opt \<Rightarrow>
               score_formula (ph \<in> set (optimal_phases opt)) profile (priority task))"
    by (simp add: get_optimal_scheduling_score_def split: option.split)
  then show ?thesis
    by blast
qed

text \<open>
  Claim C4. When the date resolves to a phase and the phase has a profile, the score is
  \<open>min(1.0, base*0.5 + (energy_level/10)*0.3 + (focus_level/10)*0.2 + (priority - 1)*0.1)\<close>
  with \<open>base\<close> 0.8 if the phase is among the optimal phases of the first table entry of the
  task's type and 0.3 otherwise; without such an entry the score is 0.5. The arithmetic is
  over exact reals.
\<close>

theorem get_optimal_scheduling_score_formula:
  assumes "get_phase_for_date self cycle_data target_date = Inr ph"
    and "map_of (PHASE_PROFILES self) ph = Some phase_profile"
  shows "get_optimal_scheduling_score self task target_date cycle_data =
    Inr (case find_task_opt (TASK_OPTIMIZATIONS self) (task_type task) of
           None \<Rightarrow> 0.5
         | Some opt \<Rightarrow>
             min 1.0 ((if ph \<in> set (optimal_phases opt) then 0.8 else 0.3) * 0.5
                      + (real_of_int (energy_level phase_profile) / 10) * 0.3
                      + (real_of_int (focus_level phase_profile) / 10) * 0.2
                      + real_of_int (priority task - 1) * 0.1))"
  using assms
  by (simp add: get_optimal_scheduling_score_def score_formula_def Let_def split: option.split)

theorem get_optimal_scheduling_score_formula_witness:
  "get_phase_for_date manager (cycle_from jan1_2024 28) (at_midnight (jan1_2024 + 16))
     = Inr LUTEAL
   \<and> map_of (PHASE_PROFILES manager) LUTEAL = Some luteal_profile
   \<and> get_optimal_scheduling_score manager (example_task SOCIAL 1 60)
        (at_midnight (jan1_2024 + 16)) (cycle_from jan1_2024 28) = Inr 0.48
   \<and> get_optimal_scheduling_score manager (example_task ANALYTICAL 5 60)
        (at_midnight (jan1_2024 + 16)) (cycle_from jan1_2024 28) = Inr 1
   \<and> get_optimal_scheduling_score (manager\<lparr>TASK_OPTIMIZATIONS := []\<rparr>)
        (example_task SOCIAL 1 60) (at_midnight (jan1_2024 + 16)) (cycle_from jan1_2024 28)
       = Inr 0.5"
proof -
  let ?cd = "cycle_from jan1_2024 28" and ?d = "at_midnight (jan1_2024 + 16)"
  have ph: "get_phase_for_date self ?cd ?d = Inr LUTEAL"
    if "PHASE_PROFILES self = PHASE_PROFILES manager" for self
    using that
    by (simp add: get_phase_for_date_def cycle_day_for_date_def phase_of_cycle_day_def
        in_day_range_def Let_def table_defs time_defs input_defs)
  have prof: "map_of (PHASE_PROFILES manager) LUTEAL = Some luteal_profile"
    by (simp add: manager_def)
  have prof': "map_of (PHASE_PROFILES (manager\<lparr>TASK_OPTIMIZATIONS := []\<rparr>)) LUTEAL
                 = Some luteal_profile"
    by (simp add: manager_def)
  have a: "get_optimal_scheduling_score manager (example_task SOCIAL 1 60) ?d ?cd = Inr 0.48"
    using get_optimal_scheduling_score_formula
      [OF ph [of manager] prof, of "example_task SOCIAL 1 60"]
    by (simp add: table_defs example_task_def)
  have b: "get_optimal_scheduling_score manager (example_task ANALYTICAL 5 60) ?d ?cd = Inr 1"
    using get_optimal_scheduling_score_formula
      [OF ph [of manager] prof, of "example_task ANALYTICAL 5 60"]
    by (simp add: table_defs example_task_def)
  have c: "get_optimal_scheduling_score (manager\<lparr>TASK_OPTIMIZATIONS := []\<rparr>)
             (example_task SOCIAL 1 60) ?d ?cd = Inr 0.5"
    using get_optimal_scheduling_score_formula
      [OF ph [of "manager\<lparr>TASK_OPTIMIZATIONS := []\<rparr>"] prof', of "example_task SOCIAL 1 60"]
    by simp
  show ?thesis
    using ph [of manager] prof a b c by simp
qed

section \<open>The ranking\<close>

lemmas score_eval = get_optimal_scheduling_score_def score_formula_def get_phase_for_date_def
  cycle_day_for_date_def phase_of_cycle_day_def in_day_range_def Let_def

lemma score_dates_fst:
  "score_dates self task cd today days = Inr ds \<Longrightarrow> map fst ds = map (plus_days today) days"
  by (induction days arbitrary: ds) (auto simp: Let_def split: sum.splits)

lemma plus_days_strict_mono: "i < j \<Longrightarrow> plus_days t i < plus_days t j"
  by (simp add: plus_days_def us_per_day_def)

lemma score_dates_ascending:
  assumes "score_dates self task cd today [0..n] = Inr ds"
  shows "sorted_wrt (<) (map fst ds)"
proof -
  have "sorted_wrt (<) (map (plus_days today) [0..n])"
    by (simp add: sorted_wrt_map sorted_wrt_mono_rel [OF _ sorted_wrt_upto] plus_days_strict_mono)
  then show ?thesis
    using score_dates_fst [OF assms] by simp
qed

lemma insort_ranked:
  assumes "sorted_wrt ranked_before ys" and "\<forall>y \<in> set ys. fst x < fst y"
  shows "sorted_wrt ranked_before (insort_key (\<lambda>p. - snd p) x ys)"
  using assms
proof (induction ys)
  case Nil
  then show ?case by simp
next
  case (Cons y ys)
  show ?case
  proof (cases "snd y \<le> snd x")
    case True
    with Cons.prems show ?thesis
      by (auto simp: ranked_before_def)
  next
    case False
    with Cons show ?thesis
      by (auto simp: ranked_before_def set_insort_key)
  qed
qed

lemma sort_by_score_reverse_ranked:
  "sorted_wrt (<) (map fst xs) \<Longrightarrow> sorted_wrt ranked_before (sort_by_score_reverse xs)"
  unfolding sort_by_score_reverse_def
proof (induction xs)
  case Nil
  then show ?case by simp
next
  case (Cons x xs)
  then show ?case
    by (auto intro!: insort_ranked)
qed

lemma get_next_optimal_dates_ranked:
  assumes "get_next_optimal_dates self now task cd n = Inr ds"
  shows "sorted_wrt ranked_before ds \<and> length ds \<le> 10"
proof -
  from assms obtain all_dates where
    sd: "score_dates self task cd now [0..n - 1] = Inr all_dates"
    and ds: "ds = take 10 (sort_by_score_reverse all_dates)"
    by (auto simp: get_next_optimal_dates_def Let_def split: sum.splits)
  have "sorted_wrt ranked_before (sort_by_score_reverse all_dates)"
    using score_dates_ascending [OF sd] by (rule sort_by_score_reverse_ranked)
  then show ?thesis
    by (simp add: ds sorted_wrt_take)
qed

lemma manager_score_dates_defined:
  "cycle_length cd \<noteq> 0 \<Longrightarrow> \<exists>ds. score_dates manager task cd today days = Inr ds"
proof (induction days)
  case Nil
  then show ?case by simp
next
  case (Cons i days)
  obtain s where "get_optimal_scheduling_score manager task (plus_days today i) cd = Inr s"
    using manager_score_defined [OF Cons.prems] by blast
  moreover obtain ds where "score_dates manager task cd today days = Inr ds"
    using Cons by blast
  ultimately show ?case
    by (simp add: Let_def)
qed

lemma manager_ranking_defined:
  "cycle_length cd \<noteq> 0 \<Longrightarrow> \<exists>ds. get_next_optimal_dates manager now task cd n = Inr ds"
  using manager_score_dates_defined [of cd task now "[0..n - 1]"]
  by (auto simp: get_next_optimal_dates_def Let_def)

lemma ranking_example:
  "get_next_optimal_dates manager (at_midnight (jan1_2024 + 12)) (example_task SOCIAL 1 60)
     (cycle_from jan1_2024 28) 5 =
   Inr [(at_midnight (jan1_2024 + 13), 0.81), (at_midnight (jan1_2024 + 14), 0.81),
        (at_midnight (jan1_2024 + 15), 0.81), (at_midnight (jan1_2024 + 12), 0.52),
        (at_midnight (jan1_2024 + 16), 0.48)]"
  by (simp add: get_next_optimal_dates_def sort_by_score_reverse_def upto.simps score_eval
      table_defs time_defs input_defs)

text \<open>
  Claim C7. With a non-zero cycle length \<open>get_next_optimal_dates\<close> returns a ranking, and in
  it the scores do not increase and, of two entries with equal scores, the earlier date
  comes first: the dates are produced in ascending order from today and the sort is a
  stable descending one.
\<close>

theorem get_next_optimal_dates_sorted:
  assumes "cycle_length cd \<noteq> 0"
  shows "\<exists>ds. get_next_optimal_dates manager now task cd n = Inr ds
           \<and> sorted_wrt (\<lambda>a b. snd b \<le> snd a \<and> (snd a = snd b \<longrightarrow> fst a < fst b)) ds"
proof -
  obtain ds where ds: "get_next_optimal_dates manager now task cd n = Inr ds"
    using manager_ranking_defined [OF assms] by blast
  have "sorted_wrt ranked_before ds"
    using get_next_optimal_dates_ranked [OF ds] by simp
  then have "sorted_wrt (\<lambda>a b. snd b \<le> snd a \<and> (snd a = snd b \<longrightarrow> fst a < fst b)) ds"
    by (simp add: ranked_before_def [abs_def])
  with ds show ?thesis
    by blast
qed

theorem get_next_optimal_dates_sorted_witness:
  "cycle_length (cycle_from jan1_2024 28) \<noteq> 0
   \<and> get_next_optimal_dates manager (at_midnight (jan1_2024 + 12)) (example_task SOCIAL 1 60)
       (cycle_from jan1_2024 28) 5 =
     Inr [(at_midnight (jan1_2024 + 13), 0.81), (at_midnight (jan1_2024 + 14), 0.81),
          (at_midnight (jan1_2024 + 15), 0.81), (at_midnight (jan1_2024 + 12), 0.52),
          (at_midnight (jan1_2024 + 16), 0.48)]
   \<and> sorted_wrt (\<lambda>a b. snd b \<le> snd a \<and> (snd a = snd b \<longrightarrow> fst a < fst b))
        [(at_midnight (jan1_2024 + 13), 0.81 :: real), (at_midnight (jan1_2024 + 14), 0.81),
         (at_midnight (jan1_2024 + 15), 0.81), (at_midnight (jan1_2024 + 12), 0.52),
         (at_midnight (jan1_2024 + 16), 0.48)]"
proof -
  have nz: "cycle_length (cycle_from jan1_2024 28) \<noteq> 0"
    by (simp add: cycle_from_def)
  from get_next_optimal_dates_sorted [OF nz, of "at_midnight (jan1_2024 + 12)"
      "example_task SOCIAL 1 60" 5]
  show ?thesis
    using nz by (simp only: ranking_example) simp
qed


section \<open>The slot finder\<close>

lemma conflicts_iff:
  "conflicts busy s e \<longleftrightarrow> (\<exists>b \<in> set busy. s < busy_end b \<and> e > busy_start b)"
  by (induction busy) auto

lemma conflicts_overlaps:
  "conflicts busy (d * us_per_day + h * us_per_hour)
     (plus_minutes (d * us_per_day + h * us_per_hour) dur)
   \<longleftrightarrow> overlaps_busy busy (candidate d h dur)"
  by (simp add: conflicts_iff overlaps_busy_def candidate_def list_ex_iff)

lemma slots_for_hours_closed:
  assumes "\<forall>h \<in> set hs. 0 \<le> h \<and> h \<le> 23"
  shows "slots_for_hours busy d dur hs =
           Inr (map (\<lambda>h. candidate d h dur)
                  (filter (\<lambda>h. \<not> overlaps_busy busy (candidate d h dur)) hs))"
  using assms
proof (induction hs)
  case Nil
  then show ?case by simp
next
  case (Cons h hs)
  then have "combine_hour d h = Inr (d * us_per_day + h * us_per_hour)"
    by (simp add: combine_hour_def)
  with Cons show ?case
    by (simp add: Let_def conflicts_overlaps) (simp add: candidate_def)
qed

lemma slots_for_days_closed:
  assumes "hours_valid wh"
  shows "slots_for_days busy dur wh cur fin =
           Inr (concat (map (day_slots busy dur wh)
                  (filter (\<lambda>d. weekday d < 5) [cur..fin])))"
  using assms
proof (induction busy dur wh cur fin rule: slots_for_days.induct)
  case (1 busy dur wh cur fin)
  have "\<forall>h \<in> set [fst wh..snd wh - 1]. 0 \<le> h \<and> h \<le> 23"
    using "1.prems" by (simp add: hours_valid_def list_all_iff)
  then have hours:
    "slots_for_hours busy cur dur [fst wh..snd wh - 1] = Inr (day_slots busy dur wh cur)"
    unfolding day_slots_def by (rule slots_for_hours_closed)
  show ?case
  proof (cases "cur \<le> fin")
    case False
    then show ?thesis
      by (simp add: slots_for_days.simps [of busy dur wh cur fin])
  next
    case True
    then have up: "[cur..fin] = cur # [cur + 1..fin]"
      by (simp add: upto_rec1)
    show ?thesis
    proof (cases "weekday cur \<ge> 5")
      case True
      with \<open>cur \<le> fin\<close> "1.IH"(1) "1.prems" show ?thesis
        by (simp add: slots_for_days.simps [of busy dur wh cur fin] up)
    next
      case False
      with \<open>cur \<le> fin\<close> "1.IH"(2) [OF _ _ hours] "1.prems" show ?thesis
        by (simp add: slots_for_days.simps [of busy dur wh cur fin] up hours)
    qed
  qed
qed

lemma find_available_slots_closed:
  assumes "hours_valid wh"
  shows "find_available_slots api self s e dur wh =
           Inr (concat (map (day_slots (get_calendar_availability api self s e) dur wh)
                  (filter (\<lambda>d. weekday d < 5) [date_of s..date_of e])))"
  using slots_for_days_closed [OF assms] by (simp add: find_available_slots_def Let_def)







section \<open>The orchestrator\<close>

lemma date_of_day_hour: "0 \<le> h \<Longrightarrow> h \<le> 23 \<Longrightarrow> date_of (d * us_per_day + h * us_per_hour) = d"
  by (simp add: date_of_def us_per_day_def us_per_hour_def)


lemma replace_hour_Inr:
  "replace_hour t h = Inr t' \<Longrightarrow> 0 \<le> h \<and> h \<le> 23 \<and> t' = date_of t * us_per_day + h * us_per_hour"
  by (simp add: replace_hour_def combine_hour_def split: if_splits)

lemma hours_valid_pair: "0 \<le> a \<Longrightarrow> b \<le> 24 \<Longrightarrow> hours_valid (a, b)"
  by (simp add: hours_valid_def list_all_iff)

lemma find_available_slots_one_day:
  assumes "0 \<le> fst wh" "fst wh \<le> 23" "0 \<le> snd wh" "snd wh \<le> 23"
  shows "find_available_slots api self (d * us_per_day + fst wh * us_per_hour)
           (d * us_per_day + snd wh * us_per_hour) dur wh =
         Inr (if weekday d < 5
              then day_slots (get_calendar_availability api self
                     (d * us_per_day + fst wh * us_per_hour)
                     (d * us_per_day + snd wh * us_per_hour)) dur wh d
              else [])"
proof -
  have "hours_valid wh"
    using assms hours_valid_pair [of "fst wh" "snd wh"] by simp
  then show ?thesis
    using assms by (simp add: find_available_slots_closed date_of_day_hour)
qed








lemma day_slots_date:
  assumes "sl \<in> set (day_slots busy dur wh d)" and "0 \<le> fst wh" and "snd wh \<le> 24"
  shows "date_of (slot_start sl) = d"
proof -
  from assms(1) obtain h where "fst wh \<le> h" "h \<le> snd wh - 1" "sl = candidate d h dur"
    by (auto simp: day_slots_def)
  with assms(2,3) show ?thesis
    by (simp add: candidate_def date_of_day_hour)
qed

lemma find_available_slots_first_date:
  assumes "replace_hour od (fst wh) = Inr sod" and "replace_hour od (snd wh) = Inr eod"
    and "find_available_slots api self sod eod dur wh = Inr (best # others)"
  shows "date_of (slot_start best) = date_of od"
proof -
  note a = replace_hour_Inr [OF assms(1)] and b = replace_hour_Inr [OF assms(2)]
  have "find_available_slots api self sod eod dur wh =
         Inr (if weekday (date_of od) < 5
              then day_slots (get_calendar_availability api self sod eod) dur wh (date_of od)
              else [])"
    using a b find_available_slots_one_day [of wh api self "date_of od" dur] by simp
  with assms(3) have "best \<in> set (day_slots (get_calendar_availability api self sod eod) dur wh
                       (date_of od))"
    by (auto split: if_splits dest: arg_cong [where f = set])
  then show ?thesis
    using a b by (auto dest: day_slots_date)
qed

lemma try_optimal_dates_result:
  assumes "cycle_length cd \<noteq> 0"
    and "try_optimal_dates api self task cd wh ds = (res, self')"
  shows "(\<exists>od r ph. (od, cycle_score r) \<in> set ds \<and> res = Inr (Some r)
            \<and> date_of (scheduled_time r) = date_of od
            \<and> create_calendar_event api self task (scheduled_time r)
                  (Some (estimated_duration task)) = (calendar_event_id r, self')
            \<and> get_phase_for_date (cycle_manager self) cd od = Inr ph
            \<and> hormonal_phase r = CyclePhase_value ph)
         \<or> ((\<forall>r. res \<noteq> Inr (Some r)) \<and> self' = self)"
  using assms(2)
proof (induction ds)
  case Nil
  then show ?case by auto
next
  case (Cons p ds)
  note prems = Cons.prems and IH = Cons.IH
  obtain od sc where p: "p = (od, sc)"
    by (cases p)
  show ?case
  proof (cases "replace_hour od (fst wh)")
    case (Inl e)
    with prems p show ?thesis by auto
  next
    case sod: (Inr sod)
    show ?thesis
    proof (cases "replace_hour od (snd wh)")
      case (Inl e)
      with prems p sod show ?thesis by auto
    next
      case eod: (Inr eod)
      show ?thesis
      proof (cases "find_available_slots api self sod eod (estimated_duration task) wh")
        case (Inl e)
        with prems p sod eod show ?thesis by auto
      next
        case slots: (Inr slots)
        show ?thesis
        proof (cases slots)
          case Nil
          with prems p sod eod slots
          have "try_optimal_dates api self task cd wh ds = (res, self')"
            by simp
          from IH [OF this] show ?thesis
            by auto
        next
          case first: (Cons best others)
          obtain ph where ph: "get_phase_for_date (cycle_manager self) cd od = Inr ph"
            using get_phase_for_date_defined [OF assms(1)] by blast
          obtain event_id self1 where ce:
            "create_calendar_event api self task (slot_start best)
               (Some (estimated_duration task)) = (event_id, self1)"
            by (cases "create_calendar_event api self task (slot_start best)
                  (Some (estimated_duration task))")
          have date: "date_of (slot_start best) = date_of od"
            using find_available_slots_first_date [OF sod eod] slots first by simp
          define r where "r = \<lparr>scheduled_time = slot_start best, end_time = slot_end best,
            cycle_score = sc, hormonal_phase = CyclePhase_value ph,
            calendar_event_id = event_id,
            reasoning = ''Scheduled during '' @ CyclePhase_value ph
              @ '' phase for optimal '' @ TaskType_value (task_type task)
              @ '' performance''\<rparr>"
          from prems p sod eod slots first ph ce
          have res: "res = Inr (Some r)" and self': "self' = self1"
            by (simp_all add: r_def)
          have "(od, cycle_score r) \<in> set (p # ds) \<and> res = Inr (Some r)
            \<and> date_of (scheduled_time r) = date_of od
            \<and> create_calendar_event api self task (scheduled_time r)
                  (Some (estimated_duration task)) = (calendar_event_id r, self')
            \<and> get_phase_for_date (cycle_manager self) cd od = Inr ph
            \<and> hormonal_phase r = CyclePhase_value ph"
            using res self' ce date ph by (simp add: r_def p)
          then show ?thesis
            by blast
        qed
      qed
    qed
  qed
qed

lemma create_calendar_event_manager:
  "create_calendar_event api self task t dur = (event_id, self') \<Longrightarrow>
     cycle_manager self' = cycle_manager self"
  by (auto simp: create_calendar_event_def split: option.splits prod.splits sum.splits)

lemma create_calendar_event_offline:
  "service self = None \<Longrightarrow> create_calendar_event api self task t dur = (None, self)"
  by (simp add: create_calendar_event_def)

lemma score_dates_zero_length:
  "cycle_length cd = 0 \<Longrightarrow> days \<noteq> [] \<Longrightarrow>
     score_dates self task cd today days = Inl ZeroDivisionError"
  by (cases days)
    (simp_all add: Let_def get_optimal_scheduling_score_def get_phase_for_date_def
      cycle_day_for_date_zero)

lemma ranking_zero_length:
  assumes "cycle_length cd = 0"
  shows "get_next_optimal_dates self now task cd n = Inl ZeroDivisionError
         \<or> get_next_optimal_dates self now task cd n = Inr []"
proof (cases "[0..n - 1] = []")
  case True
  then show ?thesis
    by (simp add: get_next_optimal_dates_def sort_by_score_reverse_def)
next
  case False
  then show ?thesis
    using score_dates_zero_length [OF assms False]
    by (simp add: get_next_optimal_dates_def)
qed

lemma schedule_task_optimally_result:
  assumes "schedule_task_optimally api now self task cd n wh = (res, self')"
  shows "(\<exists>ds od r ph. get_next_optimal_dates (cycle_manager self) now task cd n = Inr ds
            \<and> (od, cycle_score r) \<in> set ds \<and> res = Inr (Some r)
            \<and> date_of (scheduled_time r) = date_of od
            \<and> create_calendar_event api self task (scheduled_time r)
                  (Some (estimated_duration task)) = (calendar_event_id r, self')
            \<and> get_phase_for_date (cycle_manager self) cd od = Inr ph
            \<and> hormonal_phase r = CyclePhase_value ph)
         \<or> ((\<forall>r. res \<noteq> Inr (Some r)) \<and> self' = self)"
proof (cases "get_next_optimal_dates (cycle_manager self) now task cd n")
  case (Inl e)
  with assms show ?thesis
    by (auto simp: schedule_task_optimally_def)
next
  case (Inr ds)
  with assms have loop: "try_optimal_dates api self task cd wh ds = (res, self')"
    by (simp add: schedule_task_optimally_def)
  show ?thesis
  proof (cases "cycle_length cd = 0")
    case True
    with Inr ranking_zero_length [OF True, of "cycle_manager self" now task n]
    have "ds = []"
      by simp
    with loop show ?thesis
      by auto
  next
    case False
    from try_optimal_dates_result [OF False loop] Inr show ?thesis
      by blast
  qed
qed

text \<open>
  Claim C2 says that \<open>schedule_task_optimally\<close> has no side effect and creates no calendar
  entry. The source calls \<open>create_calendar_event\<close> on the slot it chose. What holds: the
  method stores the task nowhere, and the service after the call is the one that this single
  call of \<open>create_calendar_event\<close> for the returned slot leaves, whose event id is the one
  returned; when no slot is returned (\<open>None\<close> or an exception), and when no calendar is
  connected, the service is unchanged.
\<close>

theorem schedule_task_optimally_effect:
  assumes "schedule_task_optimally api now self task cycle_data days_ahead working_hours
             = (res, self')"
  shows "(\<forall>r. res = Inr (Some r) \<longrightarrow>
            create_calendar_event api self task (scheduled_time r)
              (Some (estimated_duration task)) = (calendar_event_id r, self'))
         \<and> ((\<forall>r. res \<noteq> Inr (Some r)) \<longrightarrow> self' = self)
         \<and> (service self = None \<longrightarrow> self' = self)
         \<and> cycle_manager self' = cycle_manager self"
  using schedule_task_optimally_result [OF assms]
  by (auto simp: create_calendar_event_offline dest: create_calendar_event_manager)

lemma schedule_example:
  "schedule_task_optimally memory_api (at_midnight jan1_2024) (calendar_with [])
     (example_task ANALYTICAL 3 60) (cycle_from jan1_2024 28) 1 (9, 17) =
   (Inr (Some \<lparr>scheduled_time = at_midnight jan1_2024 + 9 * us_per_hour,
               end_time = at_midnight jan1_2024 + 10 * us_per_hour,
               cycle_score = 0.81,
               hormonal_phase = ''menstrual'',
               calendar_event_id = Some ''event-1'',
               reasoning = ''Scheduled during menstrual phase for optimal analytical performance''\<rparr>),
    calendar_with [build_event (example_task ANALYTICAL 3 60)
                     (at_midnight jan1_2024 + 9 * us_per_hour) (Some 60)])"
  by (simp add: schedule_task_optimally_def get_next_optimal_dates_def
      sort_by_score_reverse_def upto.simps score_eval find_available_slots_def
      get_calendar_availability_def slots_for_days.simps create_calendar_event_def
      memory_api_def calendar_with_def table_defs time_defs input_defs)

text \<open>
  With an empty connected calendar, on Monday 2024-01-01 the call for a 60-minute task
  leaves the calendar holding one event, at 9:00.
\<close>

theorem schedule_creates_calendar_event_counterexample:
  "service (snd (schedule_task_optimally memory_api (at_midnight jan1_2024) (calendar_with [])
            (example_task ANALYTICAL 3 60) (cycle_from jan1_2024 28) 1 (9, 17)))
     = Some [build_event (example_task ANALYTICAL 3 60)
               (at_midnight jan1_2024 + 9 * us_per_hour) (Some 60)]
   \<and> snd (schedule_task_optimally memory_api (at_midnight jan1_2024) (calendar_with [])
            (example_task ANALYTICAL 3 60) (cycle_from jan1_2024 28) 1 (9, 17))
     \<noteq> calendar_with []"
  by (simp add: schedule_example) (simp add: calendar_with_def)

theorem schedule_task_optimally_effect_witness:
  "schedule_task_optimally memory_api (at_midnight jan1_2024) (calendar_with [])
     (example_task ANALYTICAL 3 60) (cycle_from jan1_2024 28) 1 (9, 17) =
   (Inr (Some \<lparr>scheduled_time = at_midnight jan1_2024 + 9 * us_per_hour,
               end_time = at_midnight jan1_2024 + 10 * us_per_hour,
               cycle_score = 0.81,
               hormonal_phase = ''menstrual'',
               calendar_event_id = Some ''event-1'',
               reasoning = ''Scheduled during menstrual phase for optimal analytical performance''\<rparr>),
    calendar_with [build_event (example_task ANALYTICAL 3 60)
                     (at_midnight jan1_2024 + 9 * us_per_hour) (Some 60)])
   \<and> create_calendar_event memory_api (calendar_with []) (example_task ANALYTICAL 3 60)
        (at_midnight jan1_2024 + 9 * us_per_hour)
        (Some (estimated_duration (example_task ANALYTICAL 3 60)))
      = (Some ''event-1'',
         calendar_with [build_event (example_task ANALYTICAL 3 60)
                          (at_midnight jan1_2024 + 9 * us_per_hour) (Some 60)])"
  using schedule_task_optimally_effect [OF schedule_example] schedule_example
  by simp


section \<open>Scores of scheduled tasks\<close>

lemma score_date_only:
  "date_of t = date_of t' \<Longrightarrow>
     get_optimal_scheduling_score self task t cd = get_optimal_scheduling_score self task t' cd"
  by (simp add: get_optimal_scheduling_score_def get_phase_for_date_def cycle_day_for_date_def)

lemma score_dates_scores:
  "score_dates self task cd today days = Inr ds \<Longrightarrow> (d, s) \<in> set ds \<Longrightarrow>
     get_optimal_scheduling_score self task d cd = Inr s"
  by (induction days arbitrary: ds) (auto simp: Let_def split: sum.splits)

lemma ranking_scores:
  assumes "get_next_optimal_dates self now task cd n = Inr ds" and "(d, s) \<in> set ds"
  shows "get_optimal_scheduling_score self task d cd = Inr s"
proof -
  from assms(1) obtain all_dates where
    sd: "score_dates self task cd now [0..n - 1] = Inr all_dates"
    and ds: "ds = take 10 (sort_by_score_reverse all_dates)"
    by (auto simp: get_next_optimal_dates_def Let_def split: sum.splits)
  have "(d, s) \<in> set all_dates"
    using assms(2) ds by (auto simp: sort_by_score_reverse_def dest: in_set_takeD)
  with sd show ?thesis
    by (rule score_dates_scores)
qed

lemma score_formula_unfold:
  "score_formula is_optimal profile prio =
     min 1 ((if is_optimal then 0.4 else 0.15) + real_of_int (energy_level profile) * 0.03
            + real_of_int (focus_level profile) * 0.02 + (real_of_int prio - 1) * 0.1)"
  by (simp add: score_formula_def Let_def)

lemma boost_threshold:
  fixes x c :: real
  shows "c + (x - 1) * 0.1 < 0.5 \<longleftrightarrow> x < 6 - 10 * c"
  by argo

lemma min_one_below_half:
  fixes y :: real
  shows "min 1 y < 0.5 \<longleftrightarrow> y < 0.5"
  unfolding min_def by argo

lemma boosted_below_half:
  fixes k m :: int and c :: real
  assumes "real_of_int m < 6 - 10 * c" and "6 - 10 * c < real_of_int m + 1"
  shows "min 1 (c + (real_of_int k - 1) * 0.1) < 0.5 \<longleftrightarrow> k \<le> m"
proof (cases "k \<le> m")
  case True
  then have "real_of_int k \<le> real_of_int m"
    by (simp only: of_int_le_iff)
  with assms(1) have "real_of_int k < 6 - 10 * c"
    by linarith
  with True show ?thesis
    unfolding min_one_below_half boost_threshold by blast
next
  case False
  then have "m + 1 \<le> k"
    by linarith
  then have "real_of_int (m + 1) \<le> real_of_int k"
    by (simp only: of_int_le_iff)
  then have "real_of_int m + 1 \<le> real_of_int k"
    by simp
  with assms(2) have "\<not> real_of_int k < 6 - 10 * c"
    by linarith
  with False show ?thesis
    unfolding min_one_below_half boost_threshold by blast
qed

lemma boosted_at_least_half:
  fixes k :: int and c :: real
  assumes "1 \<le> k" and "0.5 \<le> c"
  shows "\<not> min 1 (c + (real_of_int k - 1) * 0.1) < 0.5"
proof -
  have "real_of_int 1 \<le> real_of_int k"
    using assms(1) by (simp only: of_int_le_iff)
  then have "1 \<le> real_of_int k"
    by simp
  with assms(2) have "\<not> real_of_int k < 6 - 10 * c"
    by linarith
  then show ?thesis
    unfolding min_one_below_half boost_threshold by blast
qed

lemma manager_score_below_half:
  assumes "map_of (PHASE_PROFILES manager) ph = Some profile" and "1 \<le> prio"
  shows "score_formula is_optimal profile prio < 0.5 \<longleftrightarrow>
           \<not> is_optimal \<and> (ph = MENSTRUAL \<and> prio \<le> 2 \<or> ph = LUTEAL \<and> prio = 1)"
proof -
  have never: "\<not> min 1 (c + (real_of_int prio - 1) * 0.1) < 0.5" if "0.5 \<le> c" for c :: real
    using assms(2) that by (rule boosted_at_least_half)
  show ?thesis
  proof (cases ph)
    case MENSTRUAL
    with assms(1) have "profile = menstrual_profile"
      by (simp add: manager_def)
    then have v: "score_formula is_optimal profile prio =
        min 1 ((if is_optimal then 0.61 else 0.36) + (real_of_int prio - 1) * 0.1)"
      by (simp add: score_formula_unfold menstrual_profile_def)
    show ?thesis
      unfolding v using MENSTRUAL never [of "0.61"] boosted_below_half [of 2 "0.36" prio]
      by (cases is_optimal) simp_all
  next
    case FOLLICULAR
    with assms(1) have "profile = follicular_profile"
      by (simp add: manager_def)
    then have v: "score_formula is_optimal profile prio =
        min 1 ((if is_optimal then 0.77 else 0.52) + (real_of_int prio - 1) * 0.1)"
      by (simp add: score_formula_unfold follicular_profile_def)
    show ?thesis
      unfolding v using FOLLICULAR never [of "0.77"] never [of "0.52"]
      by (cases is_optimal) simp_all
  next
    case OVULATORY
    with assms(1) have "profile = ovulatory_profile"
      by (simp add: manager_def)
    then have v: "score_formula is_optimal profile prio =
        min 1 ((if is_optimal then 0.81 else 0.56) + (real_of_int prio - 1) * 0.1)"
      by (simp add: score_formula_unfold ovulatory_profile_def)
    show ?thesis
      unfolding v using OVULATORY never [of "0.81"] never [of "0.56"]
      by (cases is_optimal) simp_all
  next
    case LUTEAL
    with assms(1) have "profile = luteal_profile"
      by (simp add: manager_def)
    then have v: "score_formula is_optimal profile prio =
        min 1 ((if is_optimal then 0.73 else 0.48) + (real_of_int prio - 1) * 0.1)"
      by (simp add: score_formula_unfold luteal_profile_def)
    have "prio \<le> 1 \<longleftrightarrow> prio = 1"
      using assms(2) by linarith
    then show ?thesis
      unfolding v using LUTEAL never [of "0.73"] boosted_below_half [of 1 "0.48" prio]
      by (cases is_optimal) simp_all
  qed
qed

text \<open>
  Claim C5 says that the score of a scheduled task, computed again at the returned date, is
  at least the neutral 0.5. What holds for the class's tables and a priority of at least 1:
  the score computed again at \<open>scheduled_time\<close> is the returned \<open>cycle_score\<close>, and it is
  below 0.5 exactly when the phase of that date is not among the optimal phases of the
  task's type and is either menstrual with priority 1 or 2, or luteal with priority 1.
  The orchestrator takes the best ranked day that has a free slot, whatever its score.
\<close>

theorem scheduled_score_round_trip:
  assumes "schedule_task_optimally api now self task cycle_data days_ahead working_hours
             = (Inr (Some r), self')"
    and "cycle_manager self = manager"
    and "1 \<le> priority task"
  shows "get_optimal_scheduling_score manager task (scheduled_time r) cycle_data
           = Inr (cycle_score r)
         \<and> (\<exists>ph opt. get_phase_for_date manager cycle_data (scheduled_time r) = Inr ph
               \<and> find_task_opt (TASK_OPTIMIZATIONS manager) (task_type task) = Some opt
               \<and> (cycle_score r < 0.5 \<longleftrightarrow>
                    ph \<notin> set (optimal_phases opt)
                    \<and> (ph = MENSTRUAL \<and> priority task \<le> 2
                        \<or> ph = LUTEAL \<and> priority task = 1)))"
proof -
  from schedule_task_optimally_result [OF assms(1)] assms(2)
  obtain ds od where ds: "get_next_optimal_dates manager now task cycle_data days_ahead = Inr ds"
    and od: "(od, cycle_score r) \<in> set ds"
    and date: "date_of (scheduled_time r) = date_of od"
    by auto
  have "get_optimal_scheduling_score manager task od cycle_data = Inr (cycle_score r)"
    using ds od by (rule ranking_scores)
  then have score: "get_optimal_scheduling_score manager task (scheduled_time r) cycle_data
      = Inr (cycle_score r)"
    using score_date_only [OF date] by simp
  then obtain ph where ph: "get_phase_for_date manager cycle_data (scheduled_time r) = Inr ph"
    by (cases "get_phase_for_date manager cycle_data (scheduled_time r)")
      (simp_all add: get_optimal_scheduling_score_def)
  obtain profile where profile: "map_of (PHASE_PROFILES manager) ph = Some profile"
    using manager_profile_total by blast
  obtain opt where opt: "find_task_opt (TASK_OPTIMIZATIONS manager) (task_type task) = Some opt"
    using manager_task_opt_total by blast
  from score ph profile opt
  have "cycle_score r = score_formula (ph \<in> set (optimal_phases opt)) profile (priority task)"
    by (simp add: get_optimal_scheduling_score_def)
  with manager_score_below_half [OF profile assms(3), of "ph \<in> set (optimal_phases opt)"]
  have "cycle_score r < 0.5 \<longleftrightarrow>
          ph \<notin> set (optimal_phases opt)
          \<and> (ph = MENSTRUAL \<and> priority task \<le> 2 \<or> ph = LUTEAL \<and> priority task = 1)"
    by simp
  with score ph opt show ?thesis
    by blast
qed

lemma low_score_example:
  "schedule_task_optimally memory_api (at_midnight (jan1_2024 + 16)) no_calendar
     (example_task SOCIAL 1 60) (cycle_from jan1_2024 28) 3 (9, 17) =
   (Inr (Some \<lparr>scheduled_time = at_midnight (jan1_2024 + 16) + 9 * us_per_hour,
               end_time = at_midnight (jan1_2024 + 16) + 10 * us_per_hour,
               cycle_score = 0.48,
               hormonal_phase = ''luteal'',
               calendar_event_id = None,
               reasoning = ''Scheduled during luteal phase for optimal social performance''\<rparr>),
    no_calendar)"
  by (simp add: schedule_task_optimally_def get_next_optimal_dates_def
      sort_by_score_reverse_def upto.simps score_eval find_available_slots_def
      get_calendar_availability_def slots_for_days.simps create_calendar_event_def
      no_calendar_def table_defs time_defs input_defs)

lemma low_score_example_rescore:
  "get_optimal_scheduling_score manager (example_task SOCIAL 1 60)
     (at_midnight (jan1_2024 + 16) + 9 * us_per_hour) (cycle_from jan1_2024 28) = Inr 0.48"
  by (simp add: score_eval table_defs time_defs input_defs)

text \<open>
  A social task of priority 1, scheduled on 2024-01-17 (cycle day 17, luteal) with a
  horizon of three days, all luteal: social tasks have the ovulatory phase as their only
  optimal phase, the task is scheduled at 9:00 of the first day with score 0.48, and the
  score computed again at that time is 0.48.
\<close>

theorem scheduled_score_below_neutral_counterexample:
  "find_task_opt (TASK_OPTIMIZATIONS manager) (task_type (example_task SOCIAL 1 60))
     = Some (task_opt SOCIAL [OVULATORY] 9 7
               ''Meetings, presentations, networking, collaboration'')
   \<and> fst (schedule_task_optimally memory_api (at_midnight (jan1_2024 + 16)) no_calendar
          (example_task SOCIAL 1 60) (cycle_from jan1_2024 28) 3 (9, 17)) =
     Inr (Some \<lparr>scheduled_time = at_midnight (jan1_2024 + 16) + 9 * us_per_hour,
               end_time = at_midnight (jan1_2024 + 16) + 10 * us_per_hour,
               cycle_score = 0.48,
               hormonal_phase = ''luteal'',
               calendar_event_id = None,
               reasoning = ''Scheduled during luteal phase for optimal social performance''\<rparr>)
   \<and> get_optimal_scheduling_score manager (example_task SOCIAL 1 60)
        (at_midnight (jan1_2024 + 16) + 9 * us_per_hour) (cycle_from jan1_2024 28) = Inr 0.48
   \<and> \<not> (0.5 :: real) \<le> 0.48"
  by (simp add: low_score_example low_score_example_rescore)
    (simp add: manager_def example_task_def task_opt_def)

theorem scheduled_score_round_trip_witness:
  "schedule_task_optimally memory_api (at_midnight (jan1_2024 + 16)) no_calendar
     (example_task SOCIAL 1 60) (cycle_from jan1_2024 28) 3 (9, 17) =
   (Inr (Some \<lparr>scheduled_time = at_midnight (jan1_2024 + 16) + 9 * us_per_hour,
               end_time = at_midnight (jan1_2024 + 16) + 10 * us_per_hour,
               cycle_score = 0.48,
               hormonal_phase = ''luteal'',
               calendar_event_id = None,
               reasoning = ''Scheduled during luteal phase for optimal social performance''\<rparr>),
    no_calendar)
   \<and> cycle_manager no_calendar = manager
   \<and> 1 \<le> priority (example_task SOCIAL 1 60)
   \<and> get_optimal_scheduling_score manager (example_task SOCIAL 1 60)
        (at_midnight (jan1_2024 + 16) + 9 * us_per_hour) (cycle_from jan1_2024 28) = Inr 0.48"
proof -
  have m: "cycle_manager no_calendar = manager"
    by (simp add: no_calendar_def)
  have p: "1 \<le> priority (example_task SOCIAL 1 60)"
    by (simp add: example_task_def)
  from scheduled_score_round_trip [OF low_score_example m p]
  show ?thesis
    using low_score_example m p by simp
qed


section \<open>Dependence on the clock and the calendar\<close>

lemma score_dates_dated:
  assumes "date_of now1 = date_of now2"
  shows "dated (score_dates self task cd now1 days) = dated (score_dates self task cd now2 days)"
proof (induction days)
  case Nil
  then show ?case by (simp add: dated_def)
next
  case (Cons i days)
  have d: "date_of (plus_days now1 i) = date_of (plus_days now2 i)"
    using assms by (simp add: date_of_plus_days)
  then have s: "get_optimal_scheduling_score self task (plus_days now1 i) cd
      = get_optimal_scheduling_score self task (plus_days now2 i) cd"
    by (rule score_date_only)
  show ?case
  proof (cases "get_optimal_scheduling_score self task (plus_days now2 i) cd")
    case (Inl e)
    with s show ?thesis
      by (simp add: dated_def Let_def)
  next
    case (Inr sc)
    with s d Cons show ?thesis
      by (cases "score_dates self task cd now1 days"; cases "score_dates self task cd now2 days")
        (simp_all add: dated_def Let_def)
  qed
qed

lemma insort_dated:
  "map (\<lambda>p. (date_of (fst p), snd p)) (insort_key (\<lambda>p. - snd p) x ys)
     = insort_key (\<lambda>p. - snd p) (date_of (fst x), snd x) (map (\<lambda>p. (date_of (fst p), snd p)) ys)"
  by (induction ys) simp_all

lemma sort_dated:
  "map (\<lambda>p. (date_of (fst p), snd p)) (sort_by_score_reverse xs)
     = sort_key (\<lambda>p. - snd p) (map (\<lambda>p. (date_of (fst p), snd p)) xs)"
  by (induction xs) (simp_all add: sort_by_score_reverse_def insort_dated)

lemma dated_ranking:
  "dated (get_next_optimal_dates self now task cd n) =
     map_sum id (\<lambda>xs. take 10 (sort_key (\<lambda>p. - snd p) xs))
       (dated (score_dates self task cd now [0..n - 1]))"
  by (cases "score_dates self task cd now [0..n - 1]")
    (simp_all add: get_next_optimal_dates_def dated_def take_map [symmetric] sort_dated)

text \<open>
  Claim C6 says that score, ranking and slot finding are functions of their explicit
  arguments, an injected "now" among them. \<open>get_next_optimal_dates\<close> has no such parameter:
  it reads \<open>datetime.now()\<close>, and \<open>find_available_slots\<close> reads the busy times through the
  calendar service. \<open>get_optimal_scheduling_score\<close> reads nothing but its arguments and the
  tables, which is why its model above has no clock and no calendar among its parameters.
  What holds for the other two: the ranking is determined by the arguments together with the
  clock reading, and two readings on the same calendar date give the same dates and scores;
  the slots are determined by the arguments together with the busy times that the calendar
  gives for the range.
\<close>

theorem ranking_determined_by_clock_date:
  "(date_of now1 = date_of now2 \<longrightarrow>
      dated (get_next_optimal_dates self now1 task cycle_data days_ahead)
        = dated (get_next_optimal_dates self now2 task cycle_data days_ahead))
   \<and> (get_calendar_availability api service1 start_date end_date
         = get_calendar_availability api service2 start_date end_date \<longrightarrow>
       find_available_slots api service1 start_date end_date duration_minutes working_hours
         = find_available_slots api service2 start_date end_date duration_minutes
             working_hours)"
proof -
  have "dated (get_next_optimal_dates self now1 task cycle_data days_ahead)
        = dated (get_next_optimal_dates self now2 task cycle_data days_ahead)"
    if "date_of now1 = date_of now2"
    using score_dates_dated [OF that, of self task cycle_data "[0..days_ahead - 1]"]
    by (simp only: dated_ranking)
  then show ?thesis
    by (simp add: find_available_slots_def)
qed

lemma clock_example_first:
  "get_next_optimal_dates manager (at_midnight jan1_2024) (example_task ANALYTICAL 3 60)
     (cycle_from jan1_2024 28) 1 = Inr [(at_midnight jan1_2024, 0.81)]"
  by (simp add: get_next_optimal_dates_def sort_by_score_reverse_def upto.simps score_eval
      table_defs time_defs input_defs)

lemma clock_example_second:
  "get_next_optimal_dates manager (at_midnight (jan1_2024 + 1)) (example_task ANALYTICAL 3 60)
     (cycle_from jan1_2024 28) 1 = Inr [(at_midnight (jan1_2024 + 1), 0.81)]"
  by (simp add: get_next_optimal_dates_def sort_by_score_reverse_def upto.simps score_eval
      table_defs time_defs input_defs)

text \<open>
  The same task, cycle data and horizon, ranked on 2024-01-01 and on 2024-01-02, give two
  different rankings.
\<close>

theorem ranking_reads_wall_clock_counterexample:
  "get_next_optimal_dates manager (at_midnight jan1_2024) (example_task ANALYTICAL 3 60)
     (cycle_from jan1_2024 28) 1
   \<noteq> get_next_optimal_dates manager (at_midnight (jan1_2024 + 1))
       (example_task ANALYTICAL 3 60) (cycle_from jan1_2024 28) 1"
  by (simp add: clock_example_first clock_example_second)
    (simp add: at_midnight_def us_per_day_def)

theorem ranking_determined_by_clock_date_witness:
  "date_of (at_midnight jan1_2024) = date_of (at_midnight jan1_2024 + 9 * us_per_hour)
   \<and> dated (get_next_optimal_dates manager (at_midnight jan1_2024 + 9 * us_per_hour)
        (example_task ANALYTICAL 3 60) (cycle_from jan1_2024 28) 1)
      = Inr [(jan1_2024, 0.81)]
   \<and> get_calendar_availability memory_api no_calendar 0 0
      = get_calendar_availability memory_api (calendar_with []) 0 0
   \<and> find_available_slots memory_api no_calendar 0 0 60 (9, 17)
      = find_available_slots memory_api (calendar_with []) 0 0 60 (9, 17)"
proof -
  have d: "date_of (at_midnight jan1_2024) = date_of (at_midnight jan1_2024 + 9 * us_per_hour)"
    by (simp add: time_defs jan1_2024_def)
  have c: "get_calendar_availability memory_api no_calendar 0 0
      = get_calendar_availability memory_api (calendar_with []) 0 0"
    by (simp add: get_calendar_availability_def no_calendar_def calendar_with_def
        memory_api_def)
  have first: "dated (get_next_optimal_dates manager (at_midnight jan1_2024)
      (example_task ANALYTICAL 3 60) (cycle_from jan1_2024 28) 1) = Inr [(jan1_2024, 0.81)]"
    by (simp add: clock_example_first dated_def date_of_at_midnight)
  from ranking_determined_by_clock_date [of "at_midnight jan1_2024"
      "at_midnight jan1_2024 + 9 * us_per_hour" manager "example_task ANALYTICAL 3 60"
      "cycle_from jan1_2024 28" 1 memory_api no_calendar 0 0 "calendar_with []" 60 "(9, 17)"]
  show ?thesis
    using d c first by simp
qed

end
